theory Spec2Isabelle
  imports Complex_Main
begin

section \<open>Python strings and numbers\<close>

text \<open>
  A Python \<open>str\<close> is modelled as a \<open>string\<close> holding its UTF-8 bytes.  The program only
  concatenates, joins and searches strings, and these agree on the byte level.  The three
  pictographs of the source are spelled out as their UTF-8 bytes.
\<close>

definition WARN_SIGN :: string where
  "WARN_SIGN = [CHR 0xE2, CHR 0x9A, CHR 0xA0, CHR 0xEF, CHR 0xB8, CHR 0x8F]"

definition CROSS_MARK :: string where
  "CROSS_MARK = [CHR 0xE2, CHR 0x9D, CHR 0x8C]"

definition CHECK_MARK :: string where
  "CHECK_MARK = [CHR 0xE2, CHR 0x9C, CHR 0x85]"

text \<open>\<open>sep.join(parts)\<close>\<close>

fun join :: "string \<Rightarrow> string list \<Rightarrow> string" where
  "join sep [] = []"
| "join sep [x] = x"
| "join sep (x # y # ys) = x @ sep @ join sep (y # ys)"

text \<open>\<open>str(n)\<close> for an integer: decimal digits, with a minus sign when negative.\<close>

definition digit_char :: "nat \<Rightarrow> char" where
  "digit_char d = ''0123456789'' ! d"

fun str_nat :: "nat \<Rightarrow> string" where
  "str_nat n = (if n < 10 then [digit_char n] else str_nat (n div 10) @ [digit_char (n mod 10)])"

declare str_nat.simps [simp del]

definition str_int :: "int \<Rightarrow> string" where
  "str_int i = (if i < 0 then ''-'' @ str_nat (nat (- i)) else str_nat (nat i))"

section \<open>format\_duration\<close>

text \<open>
  \<open>divmod\<close> on Python integers is floor division, which is \<open>div\<close> and \<open>mod\<close> on \<open>int\<close>.
  The argument is the integer \<open>uptime_seconds\<close>, so \<open>int(seconds)\<close> is the identity.
\<close>

definition format_duration :: "int \<Rightarrow> string" where
  "format_duration seconds =
     (let days = seconds div 86400; remainder = seconds mod 86400;
          hours = remainder div 3600; remainder = remainder mod 3600;
          minutes = remainder div 60; secs = remainder mod 60;
          parts = [];
          parts = (if days > 0 then parts @ [str_int days @ ''d''] else parts);
          parts = (if hours > 0 then parts @ [str_int hours @ ''h''] else parts);
          parts = (if minutes > 0 then parts @ [str_int minutes @ ''m''] else parts);
          parts = (if secs > 0 \<or> parts = [] then parts @ [str_int secs @ ''s''] else parts)
      in join '' '' parts)"

section \<open>format\_bytes\<close>

text \<open>
  A Python number is modelled by the rational it denotes.  Division by \<open>1024.0\<close> is a
  division by a power of two, which binary floating point performs without rounding, so
  the loop is modelled with exact division.  The rounding of an integer above \<open>2^53\<close>
  on its conversion to a float, and the finite range of floats, are not modelled.

  \<open>format_2f\<close> is the format specification \<open>.2f\<close>: the sign, the integer digits, a
  point and two fraction digits of the value rounded to hundredths, ties to even.
\<close>

definition round_half_even :: "rat \<Rightarrow> int" where
  "round_half_even x =
     (let f = \<lfloor>x\<rfloor>; d = x - of_int f
      in if d < 1 / 2 then f else if 1 / 2 < d then f + 1 else if even f then f else f + 1)"

definition format_2f :: "rat \<Rightarrow> string" where
  "format_2f x =
     (let c = nat (round_half_even (\<bar>x\<bar> * 100))
      in (if x < 0 then ''-'' else []) @ str_nat (c div 100) @ ''.'' @
         [digit_char (c mod 100 div 10), digit_char (c mod 10)])"

fun format_bytes_loop :: "string list \<Rightarrow> rat \<Rightarrow> string" where
  "format_bytes_loop [] num_bytes = format_2f num_bytes @ '' PB''"
| "format_bytes_loop (u # units) num_bytes =
     (if \<bar>num_bytes\<bar> < 1024 then format_2f num_bytes @ '' '' @ u
      else format_bytes_loop units (num_bytes / 1024))"

definition UNITS :: "string list" where
  "UNITS = [''B'', ''KB'', ''MB'', ''GB'', ''TB'']"

definition format_bytes :: "rat \<Rightarrow> string" where
  "format_bytes num_bytes = format_bytes_loop UNITS num_bytes"

section \<open>Exceptions, \<open>repr\<close> and substring search\<close>

text \<open>
  \<open>ExternalError m\<close> stands for any exception (a subclass of \<open>Exception\<close>) that a call
  into the control library raises, with \<open>m\<close> its \<open>str\<close>.  Asynchronous interrupts are not
  modelled.
\<close>

datatype py_exn = KeyError string | ZeroDivisionError | ExternalError string

text \<open>
  \<open>repr\<close> of a string, as far as ASCII goes: the quote is the double quote exactly when the
  string has a single quote and no double quote; backslash and the quote are escaped, as are
  tab, newline, carriage return and the other control characters.  Bytes above \<open>0x7F\<close>
  are kept, which is what Python does for printable code points.
\<close>

definition hex_digit :: "nat \<Rightarrow> char" where
  "hex_digit d = ''0123456789abcdef'' ! d"

definition repr_char :: "char \<Rightarrow> char \<Rightarrow> string" where
  "repr_char q c =
     (if c = q \<or> c = CHR 0x5C then [CHR 0x5C, c]
      else if c = CHR 0x09 then [CHR 0x5C, CHR ''t'']
      else if c = CHR 0x0A then [CHR 0x5C, CHR ''n'']
      else if c = CHR 0x0D then [CHR 0x5C, CHR ''r'']
      else if (of_char c :: nat) < 32 \<or> c = CHR 0x7F
        then [CHR 0x5C, CHR ''x'', hex_digit (of_char c div 16), hex_digit (of_char c mod 16)]
      else [c])"

definition py_repr :: "string \<Rightarrow> string" where
  "py_repr s =
     (let q = (if CHR 0x27 \<in> set s \<and> CHR 0x22 \<notin> set s then CHR 0x22 else CHR 0x27)
      in [q] @ concat (map (repr_char q) s) @ [q])"

text \<open>\<open>str(xs)\<close> for a list of strings.\<close>

definition str_list :: "string list \<Rightarrow> string" where
  "str_list xs = ''['' @ join '', '' (map py_repr xs) @ '']''"

text \<open>\<open>str(e)\<close> for an exception.\<close>

fun exn_str :: "py_exn \<Rightarrow> string" where
  "exn_str (KeyError k) = py_repr k"
| "exn_str ZeroDivisionError = ''division by zero''"
| "exn_str (ExternalError m) = m"

text \<open>\<open>needle in haystack\<close> on strings.\<close>

definition starts_with :: "string \<Rightarrow> string \<Rightarrow> bool" where
  "starts_with needle hay = (take (length needle) hay = needle)"

fun py_in :: "string \<Rightarrow> string \<Rightarrow> bool" where
  "py_in needle [] = (needle = [])"
| "py_in needle (c # cs) = (starts_with needle (c # cs) \<or> py_in needle cs)"

text \<open>\<open>s.strip()\<close> (ASCII white space) and \<open>s.split("\n")\<close>.\<close>

definition is_space :: "char \<Rightarrow> bool" where
  "is_space c = (c \<in> set [CHR 0x09, CHR 0x0A, CHR 0x0B, CHR 0x0C, CHR 0x0D,
                           CHR 0x1C, CHR 0x1D, CHR 0x1E, CHR 0x1F, CHR 0x20])"

definition py_strip :: "string \<Rightarrow> string" where
  "py_strip s = rev (dropWhile is_space (rev (dropWhile is_space s)))"

fun split_nl :: "string \<Rightarrow> string list" where
  "split_nl [] = [[]]"
| "split_nl (c # cs) =
     (if c = CHR 0x0A then [] # split_nl cs
      else (case split_nl cs of [] \<Rightarrow> [[c]] | l # ls \<Rightarrow> (c # l) # ls))"

text \<open>True division \<open>a / b\<close> of two integers.\<close>

definition py_truediv :: "int \<Rightarrow> int \<Rightarrow> py_exn + rat" where
  "py_truediv a b = (if b = 0 then Inl ZeroDivisionError else Inr (of_int a / of_int b))"

section \<open>Configuration, the report and the control session\<close>

text \<open>The module constants the collector and the subject line read.\<close>

record config =
  TOR_CONTROL_HOST :: string
  TOR_CONTROL_PORT :: int
  TOR_CONTROL_PASSWORD :: "string option"
  RELAY_NICKNAME :: string
  MIN_CONNECTIONS_WARN :: int
  MIN_CONNECTIONS_CRIT :: int

definition module_config :: config where
  "module_config =
     \<lparr>TOR_CONTROL_HOST = ''127.0.0.1'', TOR_CONTROL_PORT = 9051, TOR_CONTROL_PASSWORD = None,
      RELAY_NICKNAME = ''OnionPie'', MIN_CONNECTIONS_WARN = 100, MIN_CONNECTIONS_CRIT = 50\<rparr>"

text \<open>
  The report is a dict whose keys are all written by the collector; each key is a field
  that is \<open>None\<close> while the key is absent.  A point in time is a count of seconds.
\<close>

record accounting_info =
  bytes_left :: string
  interval_end :: string

record report =
  generated :: "int option"
  hostname :: "string option"
  warnings :: "string list option"
  errors :: "string list option"
  version :: "string option"
  uptime_seconds :: "int option"
  uptime_human :: "string option"
  bytes_read :: "int option"
  bytes_written :: "int option"
  traffic_read_human :: "string option"
  traffic_written_human :: "string option"
  fingerprint :: "string option"
  nickname :: "string option"
  address :: "string option"
  or_port :: "string option"
  circuits_established :: "bool option"
  connection_count :: "int option"
  flags :: "string list option"
  bandwidth :: "int option option"
  published :: "int option"
  accounting :: "accounting_info option"

text \<open>The entry of the relay in the consensus, as \<open>get_network_status\<close> returns it.\<close>

record router_status =
  ns_flags :: "string list"
  ns_bandwidth :: "int option"
  ns_published :: int

text \<open>
  Everything outside the program: the clock, the host name and the outcome of every call
  on the control session, \<open>Inl\<close> the exception it raises.  \<open>get_info_int k\<close> is the
  outcome of \<open>int(controller.get_info(k))\<close>, \<open>get_info_default k d\<close> that of
  \<open>controller.get_info(k, d)\<close>.  Each call is made at most once in a run.
  \<open>running_first\<close> is the order in which the set of missing flags is iterated
  when both expected flags are missing.
\<close>

record world =
  now :: int
  gethostname :: string
  from_port :: "string \<Rightarrow> int \<Rightarrow> py_exn + unit"
  authenticate :: "string option \<Rightarrow> py_exn + unit"
  get_version :: "py_exn + string"
  get_info :: "string \<Rightarrow> py_exn + string"
  get_info_int :: "string \<Rightarrow> py_exn + int"
  get_info_default :: "string \<Rightarrow> string \<Rightarrow> py_exn + string"
  get_conf :: "string \<Rightarrow> string \<Rightarrow> py_exn + string"
  get_network_status :: "string \<Rightarrow> py_exn + router_status"
  running_first :: bool

section \<open>The collector\<close>

text \<open>
  A statement of the collector is a step: it takes the report and returns it, updated, with
  the exception it raised, if any.  The updates made before the exception stay in the report,
  as they do in the dict.
\<close>

type_synonym step = "report \<Rightarrow> py_exn option \<times> report"

definition assign :: "(report \<Rightarrow> py_exn + 'a) \<Rightarrow> ('a \<Rightarrow> report \<Rightarrow> report) \<Rightarrow> step" where
  "assign rhs store r = (case rhs r of Inl e \<Rightarrow> (Some e, r) | Inr v \<Rightarrow> (None, store v r))"

fun run_steps :: "step list \<Rightarrow> step" where
  "run_steps [] r = (None, r)"
| "run_steps (s # ss) r =
     (case s r of (None, r') \<Rightarrow> run_steps ss r' | (Some e, r') \<Rightarrow> (Some e, r'))"

text \<open>\<open>report[k]\<close> raises \<open>KeyError\<close> on an absent key; \<open>report.get(k, d)\<close> returns \<open>d\<close>.\<close>

definition lookup :: "string \<Rightarrow> 'a option \<Rightarrow> py_exn + 'a" where
  "lookup k v = (case v of None \<Rightarrow> Inl (KeyError k) | Some x \<Rightarrow> Inr x)"

definition dict_get :: "'a option \<Rightarrow> 'a \<Rightarrow> 'a" where
  "dict_get v d = (case v of None \<Rightarrow> d | Some x \<Rightarrow> x)"

definition append_warning :: "string \<Rightarrow> step" where
  "append_warning msg =
     assign (\<lambda>r. lookup ''warnings'' (warnings r)) (\<lambda>ws r. r\<lparr>warnings := Some (ws @ [msg])\<rparr>)"

definition append_error :: "string \<Rightarrow> step" where
  "append_error msg =
     assign (\<lambda>r. lookup ''errors'' (errors r)) (\<lambda>es r. r\<lparr>errors := Some (es @ [msg])\<rparr>)"

definition new_report :: "world \<Rightarrow> report" where
  "new_report w =
     \<lparr>generated = Some (now w), hostname = Some (gethostname w),
      warnings = Some [], errors = Some [],
      version = None, uptime_seconds = None, uptime_human = None,
      bytes_read = None, bytes_written = None,
      traffic_read_human = None, traffic_written_human = None,
      fingerprint = None, nickname = None, address = None, or_port = None,
      circuits_established = None, connection_count = None,
      flags = None, bandwidth = None, published = None, accounting = None\<rparr>"

text \<open>Opening the session and authenticating.\<close>

definition authenticate_call :: "config \<Rightarrow> world \<Rightarrow> py_exn + unit" where
  "authenticate_call cfg w =
     (case TOR_CONTROL_PASSWORD cfg of
        None \<Rightarrow> authenticate w None
      | Some p \<Rightarrow> if p \<noteq> [] then authenticate w (Some p) else authenticate w None)"

definition open_session :: "config \<Rightarrow> world \<Rightarrow> step list" where
  "open_session cfg w =
     [assign (\<lambda>r. from_port w (TOR_CONTROL_HOST cfg) (TOR_CONTROL_PORT cfg)) (\<lambda>u r. r),
      assign (\<lambda>r. authenticate_call cfg w) (\<lambda>u r. r)]"

text \<open>Basic info, traffic stats, relay identity, circuit status and the connection count.\<close>

definition basic_info :: "world \<Rightarrow> step list" where
  "basic_info w =
     [assign (\<lambda>r. get_version w) (\<lambda>v r. r\<lparr>version := Some v\<rparr>),
      assign (\<lambda>r. get_info_int w ''uptime'') (\<lambda>v r. r\<lparr>uptime_seconds := Some v\<rparr>),
      assign (\<lambda>r. lookup ''uptime_seconds'' (uptime_seconds r))
             (\<lambda>v r. r\<lparr>uptime_human := Some (format_duration v)\<rparr>)]"

definition traffic_stats :: "world \<Rightarrow> step list" where
  "traffic_stats w =
     [assign (\<lambda>r. get_info_int w ''traffic/read'') (\<lambda>v r. r\<lparr>bytes_read := Some v\<rparr>),
      assign (\<lambda>r. get_info_int w ''traffic/written'') (\<lambda>v r. r\<lparr>bytes_written := Some v\<rparr>),
      assign (\<lambda>r. lookup ''bytes_read'' (bytes_read r))
             (\<lambda>v r. r\<lparr>traffic_read_human := Some (format_bytes (of_int v))\<rparr>),
      assign (\<lambda>r. lookup ''bytes_written'' (bytes_written r))
             (\<lambda>v r. r\<lparr>traffic_written_human := Some (format_bytes (of_int v))\<rparr>)]"

definition relay_identity :: "config \<Rightarrow> world \<Rightarrow> step list" where
  "relay_identity cfg w =
     [assign (\<lambda>r. get_info w ''fingerprint'') (\<lambda>v r. r\<lparr>fingerprint := Some v\<rparr>),
      assign (\<lambda>r. get_conf w ''Nickname'' (RELAY_NICKNAME cfg)) (\<lambda>v r. r\<lparr>nickname := Some v\<rparr>),
      assign (\<lambda>r. get_info_default w ''address'' ''unknown'') (\<lambda>v r. r\<lparr>address := Some v\<rparr>),
      assign (\<lambda>r. get_conf w ''ORPort'' ''9001'') (\<lambda>v r. r\<lparr>or_port := Some v\<rparr>)]"

definition circuit_status :: "world \<Rightarrow> step" where
  "circuit_status w =
     assign (\<lambda>r. get_info w ''status/circuit-established'')
            (\<lambda>v r. r\<lparr>circuits_established := Some (v = ''1'')\<rparr>)"

definition count_connections :: "world \<Rightarrow> step" where
  "count_connections w =
     assign (\<lambda>r. get_info_default w ''orconn-status'' [])
            (\<lambda>orconn_status r.
               let connections = filter (\<lambda>line. line \<noteq> []) (split_nl (py_strip orconn_status))
               in r\<lparr>connection_count := Some (int (length connections))\<rparr>)"

text \<open>The connection thresholds.\<close>

definition critical_message :: "config \<Rightarrow> int \<Rightarrow> string" where
  "critical_message cfg n =
     WARN_SIGN @ ''  CRITICAL: Only '' @ str_int n @ '' connections '' @
     ''(threshold: '' @ str_int (MIN_CONNECTIONS_CRIT cfg) @ '')''"

definition warning_message :: "config \<Rightarrow> int \<Rightarrow> string" where
  "warning_message cfg n =
     WARN_SIGN @ ''  WARNING: Only '' @ str_int n @ '' connections '' @
     ''(threshold: '' @ str_int (MIN_CONNECTIONS_WARN cfg) @ '')''"

definition check_thresholds :: "config \<Rightarrow> step" where
  "check_thresholds cfg r =
     (case lookup ''connection_count'' (connection_count r) of
        Inl e \<Rightarrow> (Some e, r)
      | Inr n \<Rightarrow>
          if n < MIN_CONNECTIONS_CRIT cfg then append_warning (critical_message cfg n) r
          else if n < MIN_CONNECTIONS_WARN cfg then append_warning (warning_message cfg n) r
          else (None, r))"

text \<open>
  The relay's entry in the consensus, inside its own \<open>try\<close>: any exception of the lookup is
  handled by storing the placeholder and appending an error.
\<close>

definition UNAVAILABLE :: "string list" where
  "UNAVAILABLE = [''(unable to retrieve)'']"

definition consensus_failed :: "py_exn \<Rightarrow> step" where
  "consensus_failed e r =
     append_error (''Could not get network status: '' @ exn_str e) (r\<lparr>flags := Some UNAVAILABLE\<rparr>)"

definition consensus_flags :: "world \<Rightarrow> step" where
  "consensus_flags w r =
     (case lookup ''fingerprint'' (fingerprint r) of
        Inl e \<Rightarrow> consensus_failed e r
      | Inr fp \<Rightarrow>
          (case get_network_status w fp of
             Inl e \<Rightarrow> consensus_failed e r
           | Inr ns \<Rightarrow>
               (None, r\<lparr>flags := Some (if ns_flags ns \<noteq> [] then ns_flags ns else []),
                        bandwidth := Some (ns_bandwidth ns),
                        published := Some (ns_published ns)\<rparr>)))"

text \<open>
  The expected flags.  Every value the collector stores under \<open>flags\<close> is a list, so
  \<open>isinstance(report["flags"], list)\<close> holds whenever the key is present, and the guard is
  the truth value of \<open>report.get("flags")\<close>: present and not empty.
\<close>

definition missing_flags :: "world \<Rightarrow> string list \<Rightarrow> string list" where
  "missing_flags w current_flags =
     filter (\<lambda>f. f \<notin> set current_flags)
       (if running_first w then [''Running'', ''Valid''] else [''Valid'', ''Running''])"

definition missing_message :: "string list \<Rightarrow> string" where
  "missing_message missing = WARN_SIGN @ ''  Missing expected flags: '' @ join '', '' missing"

definition check_flags :: "world \<Rightarrow> step" where
  "check_flags w r =
     (case flags r of
        None \<Rightarrow> (None, r)
      | Some fl \<Rightarrow>
          if fl \<noteq> [] then
            (let missing = missing_flags w fl
             in if missing \<noteq> [] then append_warning (missing_message missing) r else (None, r))
          else (None, r))"

text \<open>Accounting, inside a \<open>try\<close> whose handler is \<open>pass\<close>.\<close>

definition accounting_step :: "world \<Rightarrow> step" where
  "accounting_step w r =
     (case get_info_default w ''accounting/enabled'' ''0'' of
        Inl e \<Rightarrow> (None, r)
      | Inr accounting_enabled \<Rightarrow>
          if accounting_enabled = ''1'' then
            (case get_info w ''accounting/bytes-left'' of
               Inl e \<Rightarrow> (None, r)
             | Inr bl \<Rightarrow>
                 (case get_info w ''accounting/interval-end'' of
                    Inl e \<Rightarrow> (None, r)
                  | Inr ie \<Rightarrow>
                      (None, r\<lparr>accounting := Some \<lparr>bytes_left = bl, interval_end = ie\<rparr>\<rparr>)))
          else (None, r))"

text \<open>
  The body of the outer \<open>try\<close>: the statements up to the connection count, none of which has
  a handler of its own, then the threshold check and the consensus and accounting blocks.
\<close>

definition session_queries :: "config \<Rightarrow> world \<Rightarrow> step list" where
  "session_queries cfg w =
     open_session cfg w @ basic_info w @ traffic_stats w @ relay_identity cfg w @
     [circuit_status w, count_connections w]"

definition collection :: "config \<Rightarrow> world \<Rightarrow> step list" where
  "collection cfg w =
     session_queries cfg w @
     [check_thresholds cfg, consensus_flags w, check_flags w, accounting_step w]"

text \<open>
  The outer handler catches whatever the body raised and appends the error; what this
  append itself raises goes to the caller.
\<close>

definition get_relay_report :: "config \<Rightarrow> world \<Rightarrow> py_exn + report" where
  "get_relay_report cfg w =
     (case run_steps (collection cfg w) (new_report w) of
        (None, r) \<Rightarrow> Inr r
      | (Some e, r) \<Rightarrow>
          (case append_error (''Failed to connect to Tor control port: '' @ exn_str e) r of
             (None, r') \<Rightarrow> Inr r'
           | (Some e', r') \<Rightarrow> Inl e'))"

section \<open>The formatter\<close>

text \<open>
  \<open>strftime fmt t\<close> is the rendering of the point in time \<open>t\<close>; it is a parameter.
  The truth value of a list is that it is not empty.
\<close>

definition RULE60 :: string where
  "RULE60 = replicate 60 (CHR ''='')"

definition DASH40 :: string where
  "DASH40 = replicate 40 (CHR ''-'')"

definition DASH60 :: string where
  "DASH60 = replicate 60 (CHR ''-'')"

definition truthy :: "'a list option \<Rightarrow> bool" where
  "truthy v = (case v of None \<Rightarrow> False | Some xs \<Rightarrow> xs \<noteq> [])"

definition header_lines :: "(string \<Rightarrow> int \<Rightarrow> string) \<Rightarrow> report \<Rightarrow> py_exn + string list" where
  "header_lines strftime r =
     (case lookup ''generated'' (generated r) of
        Inl e \<Rightarrow> Inl e
      | Inr g \<Rightarrow>
          Inr [RULE60,
               ''  TOR RELAY REPORT: '' @ dict_get (nickname r) ''Unknown'',
               ''  Generated: '' @ strftime ''%Y-%m-%d %H:%M:%S'' g,
               ''  Host: '' @ dict_get (hostname r) ''unknown'',
               RULE60,
               []])"

definition alert_lines :: "report \<Rightarrow> string list" where
  "alert_lines r =
     (if truthy (warnings r) then [''ALERTS'', DASH40] @ dict_get (warnings r) [] @ [[]] else [])"

definition error_lines :: "report \<Rightarrow> string list" where
  "error_lines r =
     (if truthy (errors r)
      then [''ERRORS'', DASH40] @
           map (\<lambda>error. CROSS_MARK @ '' '' @ error) (dict_get (errors r) []) @ [[]]
      else [])"

definition connection_failed :: "report \<Rightarrow> bool" where
  "connection_failed r =
     (truthy (errors r) \<and> py_in ''Failed to connect'' (str_list (dict_get (errors r) [])))"

definition status_lines :: "report \<Rightarrow> string list" where
  "status_lines r =
     (let circuit_status = (if circuits_established r = Some True
                            then CHECK_MARK @ '' Established''
                            else CROSS_MARK @ '' NOT Established'')
      in [''STATUS'', DASH40,
          ''  Circuits:      '' @ circuit_status,
          ''  Connections:   '' @
            (case connection_count r of None \<Rightarrow> ''N/A'' | Some n \<Rightarrow> str_int n),
          ''  Uptime:        '' @ dict_get (uptime_human r) ''N/A'',
          ''  Tor Version:   '' @ dict_get (version r) ''N/A'',
          []])"

definition identity_lines :: "report \<Rightarrow> string list" where
  "identity_lines r =
     [''RELAY IDENTITY'', DASH40,
      ''  Nickname:      '' @ dict_get (nickname r) ''N/A'',
      ''  Address:       '' @ dict_get (address r) ''N/A'' @ '':'' @ dict_get (or_port r) ''N/A'',
      ''  Fingerprint:   '' @ dict_get (fingerprint r) ''N/A'',
      []]"

definition flag_lines :: "report \<Rightarrow> string list" where
  "flag_lines r =
     (let flags = dict_get (flags r) []
      in [''CONSENSUS FLAGS'', DASH40,
          (if flags \<noteq> [] then ''  '' @ join '', '' flags else ''  (none)''),
          []])"

definition traffic_header ::
  "(string \<Rightarrow> int \<Rightarrow> string) \<Rightarrow> report \<Rightarrow> int \<Rightarrow> py_exn + string list" where
  "traffic_header strftime r uptime =
     (if uptime > 0 then
        (case lookup ''generated'' (generated r) of
           Inl e \<Rightarrow> Inl e
         | Inr g \<Rightarrow>
             Inr [''TRAFFIC SINCE RESTART ('' @ strftime ''%m/%d/%Y %H:%M'' (g - uptime) @ '')''])
      else Inr [''TRAFFIC SINCE RESTART''])"

definition average_lines :: "report \<Rightarrow> int \<Rightarrow> py_exn + string list" where
  "average_lines r uptime =
     (if uptime > 0 then
        (case py_truediv (dict_get (bytes_read r) 0) uptime of
           Inl e \<Rightarrow> Inl e
         | Inr avg_read \<Rightarrow>
             (case py_truediv (dict_get (bytes_written r) 0) uptime of
                Inl e \<Rightarrow> Inl e
              | Inr avg_write \<Rightarrow>
                  Inr [''  Avg Read:      '' @ format_bytes avg_read @ ''/s'',
                       ''  Avg Write:     '' @ format_bytes avg_write @ ''/s'']))
      else Inr [])"

definition traffic_lines :: "(string \<Rightarrow> int \<Rightarrow> string) \<Rightarrow> report \<Rightarrow> py_exn + string list" where
  "traffic_lines strftime r =
     (let uptime = dict_get (uptime_seconds r) 0
      in case traffic_header strftime r uptime of
           Inl e \<Rightarrow> Inl e
         | Inr header \<Rightarrow>
             (case average_lines r uptime of
                Inl e \<Rightarrow> Inl e
              | Inr averages \<Rightarrow>
                  Inr (header @
                       [DASH40,
                        ''  Read:          '' @ dict_get (traffic_read_human r) ''N/A'',
                        ''  Written:       '' @ dict_get (traffic_written_human r) ''N/A''] @
                       averages @ [[]])))"

definition footer_lines :: "report \<Rightarrow> string list" where
  "footer_lines r =
     [DASH60,
      ''Relay search: https://metrics.torproject.org/rs.html#details/'' @
        dict_get (fingerprint r) [],
      []]"

definition NEWLINE :: string where
  "NEWLINE = [CHR 0x0A]"

definition format_report_lines ::
  "(string \<Rightarrow> int \<Rightarrow> string) \<Rightarrow> report \<Rightarrow> py_exn + string list" where
  "format_report_lines strftime r =
     (case header_lines strftime r of
        Inl e \<Rightarrow> Inl e
      | Inr header \<Rightarrow>
          (let lines = header @ alert_lines r @ error_lines r
           in if connection_failed r then Inr lines
              else (case traffic_lines strftime r of
                      Inl e \<Rightarrow> Inl e
                    | Inr traffic \<Rightarrow>
                        Inr (lines @ status_lines r @ identity_lines r @ flag_lines r @
                             traffic @ footer_lines r))))"

definition format_report_text :: "(string \<Rightarrow> int \<Rightarrow> string) \<Rightarrow> report \<Rightarrow> py_exn + string" where
  "format_report_text strftime r =
     (case format_report_lines strftime r of
        Inl e \<Rightarrow> Inl e
      | Inr lines \<Rightarrow> Inr (join NEWLINE lines))"

section \<open>The subject line\<close>

definition status_emoji :: "report \<Rightarrow> string" where
  "status_emoji r =
     (if truthy (warnings r) then WARN_SIGN
      else if truthy (errors r) then CROSS_MARK
      else CHECK_MARK)"

definition subject :: "config \<Rightarrow> report \<Rightarrow> string" where
  "subject cfg r =
     status_emoji r @ '' Tor Relay Report: '' @ dict_get (nickname r) (RELAY_NICKNAME cfg)"

section \<open>Notions of the specification\<close>

text \<open>
  A segment of a duration, in the words of the specification: the value followed by its unit,
  present or absent.
\<close>

definition segment :: "bool \<Rightarrow> int \<Rightarrow> string \<Rightarrow> string list" where
  "segment shown v u = (if shown then [str_int v @ u] else [])"


definition unit_index :: "rat \<Rightarrow> nat" where
  "unit_index x =
     (case find (\<lambda>k. \<bar>x / 1024 ^ k\<bar> < 1024) [0..<length UNITS] of Some k \<Rightarrow> k | None \<Rightarrow> length UNITS)"






section \<open>Example sessions\<close>

text \<open>
  A relay in good health: every query answers, 120 connections, both expected flags,
  accounting switched off.
\<close>

definition healthy_world :: world where
  "healthy_world =
     \<lparr>now = 1000000, gethostname = ''pi'',
      from_port = (\<lambda>host port. Inr ()),
      authenticate = (\<lambda>password. Inr ()),
      get_version = Inr ''0.4.8.10'',
      get_info = (\<lambda>k. if k = ''fingerprint'' then Inr ''ABCD1234''
                        else if k = ''status/circuit-established'' then Inr ''1''
                        else Inl (ExternalError ''unrecognized key'')),
      get_info_int = (\<lambda>k. if k = ''uptime'' then Inr 3661
                            else if k = ''traffic/read'' then Inr 2048
                            else if k = ''traffic/written'' then Inr 1536
                            else Inl (ExternalError ''unrecognized key'')),
      get_info_default = (\<lambda>k d. if k = ''orconn-status''
                                  then Inr (concat (replicate 120 (''c'' @ [CHR 0x0A])))
                                  else Inr d),
      get_conf = (\<lambda>k d. Inr d),
      get_network_status =
        (\<lambda>fp. Inr \<lparr>ns_flags = [''Running'', ''Valid''], ns_bandwidth = Some 5000,
                     ns_published = 999000\<rparr>),
      running_first = True\<rparr>"


text \<open>The same relay when the consensus lookup raises.\<close>

definition consensus_fails_world :: world where
  "consensus_fails_world =
     healthy_world\<lparr>get_network_status := (\<lambda>fp. Inl (ExternalError ''boom''))\<rparr>"



text \<open>The same relay with 75 connections, between the two thresholds.\<close>

definition quiet_world :: world where
  "quiet_world =
     healthy_world\<lparr>get_info_default :=
       (\<lambda>k d. if k = ''orconn-status''
               then Inr (concat (replicate 75 (''c'' @ [CHR 0x0A])))
               else Inr d)\<rparr>"

text \<open>The reports the collector returns for the healthy relay and for the unreachable port.\<close>

definition healthy_report :: report where
  "healthy_report =
     \<lparr>generated = Some 1000000, hostname = Some ''pi'', warnings = Some [], errors = Some [],
      version = Some ''0.4.8.10'', uptime_seconds = Some 3661, uptime_human = Some ''1h 1m 1s'',
      bytes_read = Some 2048, bytes_written = Some 1536,
      traffic_read_human = Some ''2.00 KB'', traffic_written_human = Some ''1.50 KB'',
      fingerprint = Some ''ABCD1234'', nickname = Some ''OnionPie'',
      address = Some ''unknown'', or_port = Some ''9001'',
      circuits_established = Some True, connection_count = Some 120,
      flags = Some [''Running'', ''Valid''], bandwidth = Some (Some 5000),
      published = Some 999000, accounting = None\<rparr>"

definition unreachable_report :: report where
  "unreachable_report =
     \<lparr>generated = Some 1000000, hostname = Some ''pi'', warnings = Some [],
      errors = Some [''Failed to connect to Tor control port: Connection refused''],
      version = None, uptime_seconds = None, uptime_human = None,
      bytes_read = None, bytes_written = None,
      traffic_read_human = None, traffic_written_human = None,
      fingerprint = None, nickname = None, address = None, or_port = None,
      circuits_established = None, connection_count = None,
      flags = None, bandwidth = None, published = None, accounting = None\<rparr>"

text \<open>A report that carries a warning and the connection error at once.\<close>

definition warned_unreachable_report :: report where
  "warned_unreachable_report = unreachable_report\<lparr>warnings := Some [''disk almost full'']\<rparr>"

text \<open>A rendering of points in time that prints the count of seconds, whatever the format.\<close>

definition epoch_strftime :: "string \<Rightarrow> int \<Rightarrow> string" where
  "epoch_strftime fmt t = str_int t"

section \<open>Rendering of integers and durations\<close>

lemma digit_char_in: "d < 10 \<Longrightarrow> digit_char d \<in> set ''0123456789''"
  unfolding digit_char_def by (rule nth_mem) simp

lemma str_nat_digits: "set (str_nat n) \<subseteq> set ''0123456789''"
proof (induction n rule: str_nat.induct)
  case (1 n)
  show ?case
  proof (cases "n < 10")
    case True
    have "str_nat n = [digit_char n]" using True by (subst str_nat.simps) simp
    then show ?thesis using digit_char_in [OF True] by simp
  next
    case False
    have d: "digit_char (n mod 10) \<in> set ''0123456789''" by (rule digit_char_in) simp
    have e: "str_nat n = str_nat (n div 10) @ [digit_char (n mod 10)]"
      using False by (subst str_nat.simps) simp
    from 1 [OF False] d show ?thesis unfolding e by simp
  qed
qed

lemma str_nat_nonempty: "str_nat n \<noteq> []"
  by (subst str_nat.simps) simp

lemma str_int_nonempty: "str_int i \<noteq> []"
  by (simp add: str_int_def str_nat_nonempty)

lemma str_int_chars: "set (str_int i) \<subseteq> set ''-0123456789''"
proof (cases "i < 0")
  case True
  have "set (str_int i) = insert CHR ''-'' (set (str_nat (nat (- i))))"
    using True by (simp add: str_int_def)
  also have "\<dots> \<subseteq> insert CHR ''-'' (set ''0123456789'')"
    using str_nat_digits [of "nat (- i)"] by (rule insert_mono)
  finally show ?thesis by (simp only: list.set)
next
  case False
  have "set (str_int i) = set (str_nat (nat i))" using False by (simp add: str_int_def)
  also have "\<dots> \<subseteq> set ''0123456789''" by (rule str_nat_digits)
  also have "\<dots> \<subseteq> set ''-0123456789''" by (rule set_subset_Cons)
  finally show ?thesis .
qed

lemma letter_not_in_str_int: "c \<notin> set ''-0123456789'' \<Longrightarrow> c \<notin> set (str_int i)"
  using str_int_chars [of i] by (rule contra_subsetD)

lemma set_join:
  "set (join sep xs) = \<Union> (set ` set xs) \<union> (if 2 \<le> length xs then set sep else {})"
  by (induction sep xs rule: join.induct) auto

lemma parts_generic:
  assumes "0 \<le> (d::int)" "0 \<le> (h::int)" "0 \<le> (m::int)" "0 \<le> (c::int)"
  shows "(let parts = [];
          parts = (if d > 0 then parts @ [str_int d @ ''d''] else parts);
          parts = (if h > 0 then parts @ [str_int h @ ''h''] else parts);
          parts = (if m > 0 then parts @ [str_int m @ ''m''] else parts);
          parts = (if c > 0 \<or> parts = [] then parts @ [str_int c @ ''s''] else parts)
      in join '' '' parts) =
     join '' '' (segment (d \<noteq> 0) d ''d'' @ segment (h \<noteq> 0) h ''h'' @ segment (m \<noteq> 0) m ''m'' @
                 segment (c \<noteq> 0 \<or> (d = 0 \<and> h = 0 \<and> m = 0)) c ''s'')"
proof -
  have p: "\<And>x::int. 0 \<le> x \<Longrightarrow> (0 < x) = (x \<noteq> 0)" by auto
  show ?thesis
    unfolding Let_def segment_def p [OF assms(1)] p [OF assms(2)] p [OF assms(3)] p [OF assms(4)]
    by (cases "d = 0"; cases "h = 0"; cases "m = 0"; cases "c = 0") simp_all
qed

lemma format_duration_parts:
  assumes "0 \<le> s"
  shows "format_duration s =
     join '' '' (segment (s div 86400 \<noteq> 0) (s div 86400) ''d'' @
                 segment (s mod 86400 div 3600 \<noteq> 0) (s mod 86400 div 3600) ''h'' @
                 segment (s mod 86400 mod 3600 div 60 \<noteq> 0) (s mod 86400 mod 3600 div 60) ''m'' @
                 segment (s mod 86400 mod 3600 mod 60 \<noteq> 0 \<or>
                          (s div 86400 = 0 \<and> s mod 86400 div 3600 = 0 \<and>
                           s mod 86400 mod 3600 div 60 = 0))
                         (s mod 86400 mod 3600 mod 60) ''s'')"
proof -
  have d: "0 \<le> s div 86400" using assms by (simp add: pos_imp_zdiv_nonneg_iff)
  have h: "0 \<le> s mod 86400 div 3600" by (simp add: pos_imp_zdiv_nonneg_iff)
  have m: "0 \<le> s mod 86400 mod 3600 div 60" by (simp add: pos_imp_zdiv_nonneg_iff)
  have c: "0 \<le> s mod 86400 mod 3600 mod 60" by simp
  show ?thesis
    unfolding format_duration_def Let_def
    by (rule parts_generic [OF d h m c, unfolded Let_def])
qed

lemma join_nonempty: "xs \<noteq> [] \<Longrightarrow> \<forall>x \<in> set xs. x \<noteq> [] \<Longrightarrow> join sep xs \<noteq> []"
  by (induction sep xs rule: join.induct) auto

lemma unit_in_segment:
  assumes "c \<notin> set ''-0123456789''"
  shows "c \<in> \<Union> (set ` set (segment b v u)) \<longleftrightarrow> b \<and> c \<in> set u"
  using letter_not_in_str_int [OF assms, of v] by (auto simp: segment_def)

lemma unit_in_join:
  assumes "c \<notin> set ''-0123456789''" "c \<noteq> CHR '' ''"
  shows "c \<in> set (join '' '' (segment b1 v1 u1 @ segment b2 v2 u2 @ segment b3 v3 u3 @
                                segment b4 v4 u4)) \<longleftrightarrow>
         (b1 \<and> c \<in> set u1) \<or> (b2 \<and> c \<in> set u2) \<or> (b3 \<and> c \<in> set u3) \<or> (b4 \<and> c \<in> set u4)"
proof -
  have sp: "c \<notin> set '' ''" using assms(2) by simp
  have "c \<in> set (join '' '' (segment b1 v1 u1 @ segment b2 v2 u2 @ segment b3 v3 u3 @
                              segment b4 v4 u4)) \<longleftrightarrow>
        c \<in> \<Union> (set ` set (segment b1 v1 u1)) \<or> c \<in> \<Union> (set ` set (segment b2 v2 u2)) \<or>
        c \<in> \<Union> (set ` set (segment b3 v3 u3)) \<or> c \<in> \<Union> (set ` set (segment b4 v4 u4))"
    unfolding set_join using sp
    by (simp only: set_append image_Un Union_Un_distrib Un_iff split: if_splits) simp
  then show ?thesis by (simp only: unit_in_segment [OF assms(1)])
qed

text \<open>
  Claim C6.  For every non-negative number of seconds \<open>format_duration\<close> returns a non-empty
  string, the join of the day, hour, minute and second segments of the breakdown.  The unit
  letter of days, hours and minutes occurs in the result exactly when that value is not zero;
  the seconds letter occurs exactly when the seconds are not zero or the three other values
  are all zero.  An input of 0 renders as \<open>0s\<close>.
\<close>

theorem format_duration_segments:
  assumes "0 \<le> s"
  shows "format_duration s \<noteq> [] \<and>
         format_duration 0 = ''0s'' \<and>
         (CHR ''d'' \<in> set (format_duration s) \<longleftrightarrow> s div 86400 \<noteq> 0) \<and>
         (CHR ''h'' \<in> set (format_duration s) \<longleftrightarrow> s mod 86400 div 3600 \<noteq> 0) \<and>
         (CHR ''m'' \<in> set (format_duration s) \<longleftrightarrow> s mod 86400 mod 3600 div 60 \<noteq> 0) \<and>
         (CHR ''s'' \<in> set (format_duration s) \<longleftrightarrow>
            s mod 86400 mod 3600 mod 60 \<noteq> 0 \<or>
            (s div 86400 = 0 \<and> s mod 86400 div 3600 = 0 \<and> s mod 86400 mod 3600 div 60 = 0)) \<and>
         format_duration s =
           join '' ''
             (segment (s div 86400 \<noteq> 0) (s div 86400) ''d'' @
              segment (s mod 86400 div 3600 \<noteq> 0) (s mod 86400 div 3600) ''h'' @
              segment (s mod 86400 mod 3600 div 60 \<noteq> 0) (s mod 86400 mod 3600 div 60) ''m'' @
              segment (s mod 86400 mod 3600 mod 60 \<noteq> 0 \<or>
                       (s div 86400 = 0 \<and> s mod 86400 div 3600 = 0 \<and>
                        s mod 86400 mod 3600 div 60 = 0))
                      (s mod 86400 mod 3600 mod 60) ''s'')"
proof -
  note parts = format_duration_parts [OF assms]
  have ne: "format_duration s \<noteq> []"
    unfolding parts
    by (rule join_nonempty) (auto simp: segment_def str_int_nonempty)
  have zero: "format_duration 0 = ''0s''"
    by (simp add: format_duration_def str_int_def str_nat.simps digit_char_def)
  have d: "CHR ''d'' \<in> set (format_duration s) \<longleftrightarrow> s div 86400 \<noteq> 0"
    unfolding parts by (subst unit_in_join) simp_all
  have h: "CHR ''h'' \<in> set (format_duration s) \<longleftrightarrow> s mod 86400 div 3600 \<noteq> 0"
    unfolding parts by (subst unit_in_join) simp_all
  have m: "CHR ''m'' \<in> set (format_duration s) \<longleftrightarrow> s mod 86400 mod 3600 div 60 \<noteq> 0"
    unfolding parts by (subst unit_in_join) simp_all
  have c: "CHR ''s'' \<in> set (format_duration s) \<longleftrightarrow>
            s mod 86400 mod 3600 mod 60 \<noteq> 0 \<or>
            (s div 86400 = 0 \<and> s mod 86400 div 3600 = 0 \<and> s mod 86400 mod 3600 div 60 = 0)"
    unfolding parts by (subst unit_in_join) simp_all
  from ne zero d h m c parts show ?thesis by (intro conjI)
qed

text \<open>The claim at 3661 seconds: hours, minutes and seconds are shown, days are not.\<close>

theorem format_duration_segments_witness:
  "(0::int) \<le> 3661 \<and> format_duration 3661 \<noteq> [] \<and>
   CHR ''d'' \<notin> set (format_duration 3661) \<and> CHR ''h'' \<in> set (format_duration 3661) \<and>
   CHR ''m'' \<in> set (format_duration 3661) \<and> CHR ''s'' \<in> set (format_duration 3661)"
proof -
  have h: "(0::int) \<le> 3661" by simp
  note t = format_duration_segments [OF h]
  have ne: "format_duration 3661 \<noteq> []" using t by (rule conjunct1)
  have d: "CHR ''d'' \<notin> set (format_duration 3661)"
    using t [THEN conjunct2, THEN conjunct2, THEN conjunct1] by simp
  have hh: "CHR ''h'' \<in> set (format_duration 3661)"
    using t [THEN conjunct2, THEN conjunct2, THEN conjunct2, THEN conjunct1] by simp
  have m: "CHR ''m'' \<in> set (format_duration 3661)"
    using t [THEN conjunct2, THEN conjunct2, THEN conjunct2, THEN conjunct2, THEN conjunct1]
    by simp
  have c: "CHR ''s'' \<in> set (format_duration 3661)"
    using t [THEN conjunct2, THEN conjunct2, THEN conjunct2, THEN conjunct2, THEN conjunct2,
             THEN conjunct1]
    by simp
  from h ne d hh m c show ?thesis by (intro conjI)
qed

section \<open>Humanised byte counts\<close>






text \<open>The index is the least one that fits, when one of the first five does.\<close>

lemma unit_index_least:
  "unit_index x = (if \<exists>k<length UNITS. \<bar>x / 1024 ^ k\<bar> < 1024 then (LEAST k. \<bar>x / 1024 ^ k\<bar> < 1024) else length UNITS)"
proof (cases "find (\<lambda>k. \<bar>x / 1024 ^ k\<bar> < 1024) [0..<length UNITS]")
  case None
  then have "\<not> (\<exists>k<length UNITS. \<bar>x / 1024 ^ k\<bar> < 1024)" by (auto simp: find_None_iff)
  with None show ?thesis by (auto simp: unit_index_def)
next
  case (Some k)
  then have k: "k < length UNITS" "\<bar>x / 1024 ^ k\<bar> < 1024" "\<forall>j<k. \<not> \<bar>x / 1024 ^ j\<bar> < 1024"
    by (auto simp: find_Some_iff)
  have "(LEAST k. \<bar>x / 1024 ^ k\<bar> < 1024) = k"
    by (rule Least_equality) (use k in \<open>auto simp: not_less [symmetric]\<close>)
  with Some k show ?thesis by (auto simp: unit_index_def)
qed


section \<open>The collector, step by step\<close>







lemma warnings_same: "warnings r = Some ws \<Longrightarrow> r\<lparr>warnings := Some ws\<rparr> = r"
  by simp

lemma append_warning_ok:
  "warnings r = Some ws \<Longrightarrow> append_warning m r = (None, r\<lparr>warnings := Some (ws @ [m])\<rparr>)"
  by (simp add: append_warning_def assign_def lookup_def)


lemma check_thresholds_ok:
  assumes "connection_count r = Some n" and "warnings r = Some ws"
  shows "check_thresholds cfg r =
     (None, r\<lparr>warnings := Some (ws @
        (if n < MIN_CONNECTIONS_CRIT cfg then [critical_message cfg n]
         else if n < MIN_CONNECTIONS_WARN cfg then [warning_message cfg n]
         else []))\<rparr>)"
  using assms warnings_same [OF assms(2)]
  by (simp add: check_thresholds_def lookup_def append_warning_ok)









section \<open>The connection thresholds\<close>

text \<open>
  Claim C5.  On a report that holds the connection count, the threshold check appends at most
  one warning: when the count is below the critical threshold, the CRITICAL message with the
  count and the critical threshold, and nothing else; otherwise, when the count is below the
  warning threshold, the WARNING message with the count and the warning threshold; otherwise
  nothing.  It does not raise.
\<close>

theorem check_thresholds_one_warning:
  assumes "connection_count r = Some n" and "warnings r = Some ws"
  shows "check_thresholds cfg r =
     (None, r\<lparr>warnings := Some (ws @
        (if n < MIN_CONNECTIONS_CRIT cfg
         then [WARN_SIGN @ ''  CRITICAL: Only '' @ str_int n @ '' connections (threshold: '' @
               str_int (MIN_CONNECTIONS_CRIT cfg) @ '')'']
         else if n < MIN_CONNECTIONS_WARN cfg
         then [WARN_SIGN @ ''  WARNING: Only '' @ str_int n @ '' connections (threshold: '' @
               str_int (MIN_CONNECTIONS_WARN cfg) @ '')'']
         else []))\<rparr>)"
  using check_thresholds_ok [OF assms, of cfg]
  by (simp add: critical_message_def warning_message_def)

text \<open>With 30 connections and the thresholds 50 and 100 the one warning is the critical one.\<close>

theorem check_thresholds_one_warning_witness:
  "connection_count ((new_report healthy_world)\<lparr>connection_count := Some 30\<rparr>) = Some 30 \<and>
   warnings ((new_report healthy_world)\<lparr>connection_count := Some 30\<rparr>) = Some [] \<and>
   check_thresholds module_config ((new_report healthy_world)\<lparr>connection_count := Some 30\<rparr>) =
     (None, (new_report healthy_world)
        \<lparr>connection_count := Some 30,
         warnings := Some [WARN_SIGN @ ''  CRITICAL: Only 30 connections (threshold: 50)'']\<rparr>)"
proof -
  have c: "connection_count ((new_report healthy_world)\<lparr>connection_count := Some 30\<rparr>) = Some 30"
    by simp
  have w: "warnings ((new_report healthy_world)\<lparr>connection_count := Some 30\<rparr>) = Some []"
    by (simp add: new_report_def)
  show ?thesis
    using c w check_thresholds_one_warning [OF c w, of module_config]
    by (simp add: module_config_def str_int_def str_nat.simps digit_char_def)
qed

text \<open>
  In a whole run with 75 connections the report carries the one warning of the warning tier.
\<close>

lemma quiet_world_report:
  "get_relay_report module_config quiet_world =
     Inr (healthy_report
            \<lparr>warnings := Some [WARN_SIGN @ ''  WARNING: Only 75 connections (threshold: 100)''],
             connection_count := Some 75\<rparr>)"
  by code_simp

section \<open>The expected flags\<close>

text \<open>
  Claim C2 at a session whose consensus lookup raises: the flags are the placeholder, and the
  completeness check runs on it all the same, so the report warns that both expected flags
  are missing.
\<close>

theorem placeholder_flags_are_checked:
  "get_network_status consensus_fails_world ''ABCD1234'' = Inl (ExternalError ''boom'') \<and>
   get_relay_report module_config consensus_fails_world =
     Inr \<lparr>generated = Some 1000000, hostname = Some ''pi'',
          warnings = Some [WARN_SIGN @ ''  Missing expected flags: Running, Valid''],
          errors = Some [''Could not get network status: boom''],
          version = Some ''0.4.8.10'', uptime_seconds = Some 3661, uptime_human = Some ''1h 1m 1s'',
          bytes_read = Some 2048, bytes_written = Some 1536,
          traffic_read_human = Some ''2.00 KB'', traffic_written_human = Some ''1.50 KB'',
          fingerprint = Some ''ABCD1234'', nickname = Some ''OnionPie'',
          address = Some ''unknown'', or_port = Some ''9001'',
          circuits_established = Some True, connection_count = Some 120,
          flags = Some [''(unable to retrieve)''], bandwidth = None,
          published = None, accounting = None\<rparr>"
  by code_simp

section \<open>Failures during collection\<close>







section \<open>The report the formatter receives\<close>


text \<open>The healthy relay yields the healthy report.\<close>

lemma healthy_world_report: "get_relay_report module_config healthy_world = Inr healthy_report"
  by code_simp


section \<open>The traffic section\<close>








section \<open>The short document after a failed connection\<close>

lemma py_in_appendI: "py_in n (a @ n @ b)"
proof (induction a)
  case Nil
  show ?case
  proof (cases "n @ b")
    case Nil
    then show ?thesis by simp
  next
    case (Cons c cs)
    have "starts_with n (n @ b)" by (simp add: starts_with_def)
    then show ?thesis unfolding append_Nil Cons by simp
  qed
next
  case (Cons x a)
  then show ?case by simp
qed

lemma py_in_appendD: "py_in n h \<Longrightarrow> \<exists>a b. h = a @ n @ b"
proof (induction h)
  case Nil
  then show ?case by simp
next
  case (Cons c cs)
  show ?case
  proof (cases "starts_with n (c # cs)")
    case True
    then have "c # cs = [] @ n @ drop (length n) (c # cs)"
      unfolding starts_with_def by (metis append_Nil append_take_drop_id)
    then show ?thesis by blast
  next
    case False
    with Cons.prems have "py_in n cs" by simp
    from Cons.IH [OF this] obtain a b where "cs = a @ n @ b" by blast
    then have "c # cs = (c # a) @ n @ b" by simp
    then show ?thesis by blast
  qed
qed

lemma needle_unescaped:
  "q = CHR 0x27 \<or> q = CHR 0x22 \<Longrightarrow>
   concat (map (repr_char q) ''Failed to connect'') = ''Failed to connect''"
  by (auto simp: repr_char_def)

lemma py_repr_keeps_needle:
  assumes "py_in ''Failed to connect'' e"
  shows "py_in ''Failed to connect'' (py_repr e)"
proof -
  from py_in_appendD [OF assms] obtain a b where e: "e = a @ ''Failed to connect'' @ b" by blast
  define q where "q = (if CHR 0x27 \<in> set e \<and> CHR 0x22 \<notin> set e then CHR 0x22 else CHR 0x27)"
  have q: "q = CHR 0x27 \<or> q = CHR 0x22" by (simp add: q_def)
  have "py_repr e = [q] @ concat (map (repr_char q) e) @ [q]"
    by (simp add: py_repr_def q_def Let_def)
  also have "concat (map (repr_char q) e) =
      concat (map (repr_char q) a) @ concat (map (repr_char q) ''Failed to connect'') @
      concat (map (repr_char q) b)"
    unfolding e by (simp only: map_append concat_append)
  finally have "py_repr e = ([q] @ concat (map (repr_char q) a)) @ ''Failed to connect'' @
      (concat (map (repr_char q) b) @ [q])"
    by (simp only: needle_unescaped [OF q] append_assoc)
  then show ?thesis by (simp only: py_in_appendI)
qed

lemma join_contains: "x \<in> set xs \<Longrightarrow> \<exists>a b. join sep xs = a @ x @ b"
proof (induction sep xs rule: join.induct)
  case (1 sep)
  then show ?case by simp
next
  case (2 sep y)
  then have "join sep [y] = [] @ x @ []" by simp
  then show ?case by blast
next
  case (3 sep y z zs)
  show ?case
  proof (cases "x = y")
    case True
    then have "join sep (y # z # zs) = [] @ x @ (sep @ join sep (z # zs))" by simp
    then show ?thesis by blast
  next
    case False
    with 3 obtain a b where "join sep (z # zs) = a @ x @ b" by auto
    then have "join sep (y # z # zs) = (y @ sep @ a) @ x @ b" by simp
    then show ?thesis by blast
  qed
qed

lemma py_in_trans: "py_in n m \<Longrightarrow> py_in m h \<Longrightarrow> py_in n h"
proof -
  assume "py_in n m" "py_in m h"
  then obtain a b c d where "m = a @ n @ b" "h = c @ m @ d"
    by (meson py_in_appendD)
  then have "h = (c @ a) @ n @ (b @ d)" by simp
  then show ?thesis by (simp only: py_in_appendI)
qed

lemma str_list_keeps_needle:
  assumes "e \<in> set es" and "py_in ''Failed to connect'' e"
  shows "py_in ''Failed to connect'' (str_list es)"
proof -
  have "py_repr e \<in> set (map py_repr es)" using assms(1) by simp
  from join_contains [OF this] obtain a b where "join '', '' (map py_repr es) = a @ py_repr e @ b"
    by blast
  then have "str_list es = (''['' @ a) @ py_repr e @ (b @ '']'')"
    by (simp add: str_list_def)
  then have "py_in (py_repr e) (str_list es)" by (simp only: py_in_appendI)
  with py_repr_keeps_needle [OF assms(2)] show ?thesis by (rule py_in_trans)
qed

lemma connection_failedI:
  assumes "errors r = Some es" and "e \<in> set es" and "py_in ''Failed to connect'' e"
  shows "connection_failed r"
proof -
  have "es \<noteq> []" using assms(2) by auto
  with assms(1) str_list_keeps_needle [OF assms(2,3)] show ?thesis
    by (simp add: connection_failed_def truthy_def dict_get_def)
qed

text \<open>
  Claim C4.  When an error of the report holds the text \<open>Failed to connect\<close>, the document
  is the header, the alerts if any, and the errors section, and nothing after it: the lines
  of the document end with the error lines and one empty line.  The report carries its
  generation time, which the header reads.
\<close>

theorem connection_failure_ends_document:
  assumes "generated r = Some g" and "errors r = Some es"
    and "e \<in> set es" and "py_in ''Failed to connect'' e"
  shows "format_report_lines strftime r =
     Inr ([RULE60,
           ''  TOR RELAY REPORT: '' @ dict_get (nickname r) ''Unknown'',
           ''  Generated: '' @ strftime ''%Y-%m-%d %H:%M:%S'' g,
           ''  Host: '' @ dict_get (hostname r) ''unknown'',
           RULE60, []] @
          alert_lines r @
          [''ERRORS'', DASH40] @ map (\<lambda>error. CROSS_MARK @ '' '' @ error) es @ [[]]) \<and>
     format_report_text strftime r =
     Inr (join NEWLINE
          ([RULE60,
            ''  TOR RELAY REPORT: '' @ dict_get (nickname r) ''Unknown'',
            ''  Generated: '' @ strftime ''%Y-%m-%d %H:%M:%S'' g,
            ''  Host: '' @ dict_get (hostname r) ''unknown'',
            RULE60, []] @
           alert_lines r @
           [''ERRORS'', DASH40] @ map (\<lambda>error. CROSS_MARK @ '' '' @ error) es @ [[]]))"
proof -
  have ne: "es \<noteq> []" using assms(3) by auto
  have cf: "connection_failed r" using assms(2,3,4) by (rule connection_failedI)
  have el: "error_lines r = [''ERRORS'', DASH40] @ map (\<lambda>error. CROSS_MARK @ '' '' @ error) es @ [[]]"
    using assms(2) ne by (simp add: error_lines_def truthy_def dict_get_def)
  have l: "format_report_lines strftime r =
     Inr ([RULE60,
           ''  TOR RELAY REPORT: '' @ dict_get (nickname r) ''Unknown'',
           ''  Generated: '' @ strftime ''%Y-%m-%d %H:%M:%S'' g,
           ''  Host: '' @ dict_get (hostname r) ''unknown'',
           RULE60, []] @
          alert_lines r @
          [''ERRORS'', DASH40] @ map (\<lambda>error. CROSS_MARK @ '' '' @ error) es @ [[]])"
    using assms(1) cf
    by (simp add: format_report_lines_def header_lines_def lookup_def Let_def el)
  show ?thesis
    by (rule conjI [OF l]) (simp only: format_report_text_def l sum.case)
qed

text \<open>The document for the report of the unreachable port.\<close>

theorem connection_failure_ends_document_witness:
  "generated unreachable_report = Some 1000000 \<and>
   errors unreachable_report = Some [''Failed to connect to Tor control port: Connection refused''] \<and>
   py_in ''Failed to connect'' ''Failed to connect to Tor control port: Connection refused'' \<and>
   format_report_lines epoch_strftime unreachable_report =
     Inr [RULE60, ''  TOR RELAY REPORT: Unknown'', ''  Generated: 1000000'', ''  Host: pi'',
          RULE60, [],
          ''ERRORS'', DASH40,
          CROSS_MARK @ '' Failed to connect to Tor control port: Connection refused'', []]"
proof -
  have g: "generated unreachable_report = Some 1000000" by (simp add: unreachable_report_def)
  have e: "errors unreachable_report =
             Some [''Failed to connect to Tor control port: Connection refused'']"
    by (simp add: unreachable_report_def)
  have m: "''Failed to connect to Tor control port: Connection refused'' \<in>
             set [''Failed to connect to Tor control port: Connection refused'']"
    by simp
  have p: "py_in ''Failed to connect'' ''Failed to connect to Tor control port: Connection refused''"
    by code_simp
  have t: "str_int 1000000 = ''1000000''"
    by (simp add: str_int_def str_nat.simps digit_char_def)
  have l: "format_report_lines epoch_strftime unreachable_report =
     Inr [RULE60, ''  TOR RELAY REPORT: Unknown'', ''  Generated: 1000000'', ''  Host: pi'',
          RULE60, [],
          ''ERRORS'', DASH40,
          CROSS_MARK @ '' Failed to connect to Tor control port: Connection refused'', []]"
    using connection_failure_ends_document [OF g e m p, of epoch_strftime, THEN conjunct1]
    by (simp add: unreachable_report_def dict_get_def alert_lines_def truthy_def
        epoch_strftime_def t)
  from g e p l show ?thesis by (intro conjI)
qed

section \<open>The indicator of the subject line\<close>

text \<open>
  Claim C9.  The indicator of the subject line is the warning sign when the list of warnings
  is not empty; otherwise the cross mark when the list of errors is not empty; otherwise the
  check mark.  It is the same for any report with these two lists, whatever else the report
  holds.  The three indicators differ from each other.
\<close>

theorem subject_indicator:
  "status_emoji r =
     (case warnings r of
        Some (w # ws) \<Rightarrow> WARN_SIGN
      | _ \<Rightarrow> (case errors r of Some (e # es) \<Rightarrow> CROSS_MARK | _ \<Rightarrow> CHECK_MARK)) \<and>
   status_emoji r =
     status_emoji
       \<lparr>generated = None, hostname = None, warnings = warnings r, errors = errors r,
        version = None, uptime_seconds = None, uptime_human = None,
        bytes_read = None, bytes_written = None,
        traffic_read_human = None, traffic_written_human = None,
        fingerprint = None, nickname = None, address = None, or_port = None,
        circuits_established = None, connection_count = None,
        flags = None, bandwidth = None, published = None, accounting = None\<rparr> \<and>
   subject cfg r =
     status_emoji r @ '' Tor Relay Report: '' @
     (case nickname r of None \<Rightarrow> RELAY_NICKNAME cfg | Some n \<Rightarrow> n) \<and>
   WARN_SIGN \<noteq> CROSS_MARK \<and> WARN_SIGN \<noteq> CHECK_MARK \<and> CROSS_MARK \<noteq> CHECK_MARK"
  by (simp add: status_emoji_def subject_def truthy_def dict_get_def WARN_SIGN_def CROSS_MARK_def
      CHECK_MARK_def split: option.splits list.splits)

text \<open>
  A report with a warning and the connection error gets the warning sign; with the error alone
  the cross mark; the healthy report the check mark.
\<close>

theorem subject_indicator_witness:
  "subject module_config warned_unreachable_report = WARN_SIGN @ '' Tor Relay Report: OnionPie'' \<and>
   subject module_config unreachable_report = CROSS_MARK @ '' Tor Relay Report: OnionPie'' \<and>
   subject module_config healthy_report = CHECK_MARK @ '' Tor Relay Report: OnionPie''"
  using subject_indicator [of warned_unreachable_report module_config]
    subject_indicator [of unreachable_report module_config]
    subject_indicator [of healthy_report module_config]
  by (simp add: warned_unreachable_report_def unreachable_report_def healthy_report_def
      module_config_def)

end
